theory Spec2Isabelle
  imports Complex_Main
begin

section \<open>Scalars and arrays\<close>

text \<open>
  A scalar of the library is an IEEE-754 double. The methods of \<^verbatim>\<open>variable.py\<close> only
  compare scalars, test them for NaN and clip them; none of these rounds. A scalar is
  therefore NaN, one of the two infinities, or a real number.
\<close>

datatype scalar = NaN | NegInf | PosInf | Fin real

text \<open>\<^verbatim>\<open>np.isnan\<close> (also \<^verbatim>\<open>Op.isnan\<close>) and finiteness.\<close>

definition isnan :: "scalar \<Rightarrow> bool" where
  "isnan x = (x = NaN)"

fun isfinite :: "scalar \<Rightarrow> bool" where
  "isfinite (Fin r) = True"
| "isfinite NaN = False"
| "isfinite NegInf = False"
| "isfinite PosInf = False"

text \<open>The comparisons of doubles: every comparison with NaN is false.\<close>

fun scalar_lt :: "scalar \<Rightarrow> scalar \<Rightarrow> bool" where
  "scalar_lt NaN b = False"
| "scalar_lt a NaN = False"
| "scalar_lt NegInf NegInf = False"
| "scalar_lt NegInf b = True"
| "scalar_lt a NegInf = False"
| "scalar_lt PosInf b = False"
| "scalar_lt a PosInf = True"
| "scalar_lt (Fin a) (Fin b) = (a < b)"

definition scalar_gt :: "scalar \<Rightarrow> scalar \<Rightarrow> bool" where
  "scalar_gt a b = scalar_lt b a"

definition scalar_le :: "scalar \<Rightarrow> scalar \<Rightarrow> bool" where
  "scalar_le a b = (if isnan a \<or> isnan b then False else \<not> scalar_lt b a)"

definition scalar_ge :: "scalar \<Rightarrow> scalar \<Rightarrow> bool" where
  "scalar_ge a b = scalar_le b a"

text \<open>
  A value of type \<^verbatim>\<open>Scalar\<close> is a Python float or a numpy array of doubles. It is
  modelled by the list of its elements in iteration order; a float and a
  zero-dimensional array are one-element lists.
\<close>

type_synonym ndarray = "scalar list"

text \<open>
  numpy's \<^verbatim>\<open>maximum\<close>, \<^verbatim>\<open>minimum\<close> and \<^verbatim>\<open>clip\<close>. NaN propagates through each, and
  \<^verbatim>\<open>clip(a, lo, hi)\<close> is \<^verbatim>\<open>minimum(maximum(a, lo), hi)\<close>, element by element.
\<close>

definition np_maximum :: "scalar \<Rightarrow> scalar \<Rightarrow> scalar" where
  "np_maximum a b = (if isnan a \<or> isnan b then NaN else if scalar_lt a b then b else a)"

definition np_minimum :: "scalar \<Rightarrow> scalar \<Rightarrow> scalar" where
  "np_minimum a b = (if isnan a \<or> isnan b then NaN else if scalar_lt b a then b else a)"

definition clip1 :: "scalar \<Rightarrow> scalar \<Rightarrow> scalar \<Rightarrow> scalar" where
  "clip1 a lo hi = np_minimum (np_maximum a lo) hi"

definition np_clip :: "ndarray \<Rightarrow> scalar \<Rightarrow> scalar \<Rightarrow> ndarray" where
  "np_clip a lo hi = map (\<lambda>a_i. clip1 a_i lo hi) a"

text \<open>The exceptions a call can raise.\<close>

datatype exn = ValueError | IndexError | OtherError

text \<open>\<^verbatim>\<open>np.take(a, -1)\<close>: the last element; an empty array has none.\<close>

definition np_take_last :: "ndarray \<Rightarrow> exn + scalar" where
  "np_take_last a = (if a = [] then Inl IndexError else Inr (last a))"

section \<open>Terms, norms and the aggregated fuzzy set\<close>

text \<open>
  Modelled from the spec: the classes Term, Activated, Aggregated, the norms and the
  defuzzifiers are defined in modules that variable.py imports. Of a term the
  variable uses its name and its membership function, which can raise. An Aggregated
  holds the name and the range it is constructed with, an optional aggregation
  norm and the sequence of activated terms; clearing it empties that sequence. A
  defuzzifier maps the aggregated set and the range to a raw array, or raises.
\<close>

record Term =
  term_name :: string
  membership :: "scalar \<Rightarrow> exn + scalar"

datatype TNorm = Minimum | AlgebraicProduct | BoundedDifference | DrasticProduct
  | EinsteinProduct | HamacherProduct | NilpotentMinimum

datatype SNorm = Maximum | AlgebraicSum | BoundedSum | DrasticSum | EinsteinSum
  | HamacherSum | NilpotentMaximum | NormalizedSum | UnboundedSum

record Activated =
  activated_term :: Term
  degree :: scalar
  implication :: "TNorm option"

record Aggregated =
  fuzzy_name :: string
  fuzzy_minimum :: scalar
  fuzzy_maximum :: scalar
  aggregation :: "SNorm option"
  fuzzy_terms :: "Activated list"

definition Aggregated_clear :: "Aggregated \<Rightarrow> Aggregated" where
  "Aggregated_clear self = self\<lparr>fuzzy_terms := []\<rparr>"

type_synonym Defuzzifier = "Aggregated \<Rightarrow> scalar \<Rightarrow> scalar \<Rightarrow> exn + ndarray"

section \<open>Variable\<close>

text \<open>
  The attributes that Variable and OutputVariable both store in the instance; the
  attribute \<^verbatim>\<open>_value\<close> is the field \<open>u_value\<close>. A Variable (and an InputVariable)
  also stores its range; an OutputVariable reads and writes the range of its
  aggregated set through the properties \<^verbatim>\<open>minimum\<close> and \<^verbatim>\<open>maximum\<close>.
\<close>

record variable_members =
  name :: string
  description :: string
  enabled :: bool
  lock_range :: bool
  terms :: "Term list"
  u_value :: ndarray

record Variable = variable_members +
  minimum :: scalar
  maximum :: scalar

text \<open>The property \<^verbatim>\<open>value\<close>: its getter and its setter.\<close>

definition value_getter :: "'a variable_members_scheme \<Rightarrow> ndarray" where
  "value_getter self = u_value self"

definition Variable_value_setter :: "ndarray \<Rightarrow> Variable \<Rightarrow> Variable" where
  "Variable_value_setter v self =
     self\<lparr>u_value := (if lock_range self then np_clip v (minimum self) (maximum self) else v)\<rparr>"

definition Variable_init ::
  "string \<Rightarrow> string \<Rightarrow> bool \<Rightarrow> scalar \<Rightarrow> scalar \<Rightarrow> bool \<Rightarrow> Term list \<Rightarrow> Variable" where
  "Variable_init nm descr en mn mx lr ts =
     Variable_value_setter [NaN]
       \<lparr>name = nm, description = descr, enabled = en, lock_range = lr, terms = ts,
        u_value = [], minimum = mn, maximum = mx\<rparr>"

text \<open>
  \<^verbatim>\<open>fx = scalar(nan); with contextlib.suppress(ValueError): fx = term.membership(x)\<close>:
  a ValueError leaves NaN, any other exception propagates.
\<close>

definition membership_suppressed :: "Term \<Rightarrow> scalar \<Rightarrow> exn + scalar" where
  "membership_suppressed t x =
     (case membership t x of
        Inl e \<Rightarrow> (if e = ValueError then Inr NaN else Inl e)
      | Inr y \<Rightarrow> Inr y)"

text \<open>
  \<^verbatim>\<open>fuzzify\<close>: the loop over the terms appends one string per term to \<open>result\<close>,
  the strings are joined at the end. \<^verbatim>\<open>Op.str\<close> (the formatting of a scalar with the
  configured number of decimals) is the parameter \<open>op_str\<close>.
\<close>

fun fuzzify_loop ::
  "(scalar \<Rightarrow> string) \<Rightarrow> scalar \<Rightarrow> Term list \<Rightarrow> string list \<Rightarrow> exn + string list" where
  "fuzzify_loop op_str x [] result = Inr result"
| "fuzzify_loop op_str x (t # ts) result =
     (case membership_suppressed t x of
        Inl e \<Rightarrow> Inl e
      | Inr fx \<Rightarrow>
          (if result = [] then
             fuzzify_loop op_str x ts (result @ [op_str fx @ ''/'' @ term_name t])
           else
             (let pm = (if scalar_ge fx (Fin 0) \<or> isnan fx then ''+'' else ''-'')
              in fuzzify_loop op_str x ts
                   (result @ ['' '' @ pm @ '' '' @ op_str fx @ ''/'' @ term_name t]))))"

definition fuzzify ::
  "(scalar \<Rightarrow> string) \<Rightarrow> 'a variable_members_scheme \<Rightarrow> scalar \<Rightarrow> exn + string" where
  "fuzzify op_str self x =
     (case fuzzify_loop op_str x (terms self) [] of
        Inl e \<Rightarrow> Inl e
      | Inr result \<Rightarrow> Inr (concat result))"

text \<open>\<^verbatim>\<open>highest_membership\<close>: the loop carries \<open>result\<close>, which starts at (0.0, None).\<close>

fun highest_membership_loop ::
  "scalar \<Rightarrow> Term list \<Rightarrow> scalar \<times> Term option \<Rightarrow> exn + scalar \<times> Term option" where
  "highest_membership_loop x [] result = Inr result"
| "highest_membership_loop x (t # ts) result =
     (case membership_suppressed t x of
        Inl e \<Rightarrow> Inl e
      | Inr y \<Rightarrow>
          (if scalar_gt y (fst result) then highest_membership_loop x ts (y, Some t)
           else highest_membership_loop x ts result))"

definition highest_membership ::
  "'a variable_members_scheme \<Rightarrow> scalar \<Rightarrow> exn + scalar \<times> Term option" where
  "highest_membership self x = highest_membership_loop x (terms self) (Fin 0, None)"

section \<open>OutputVariable\<close>

record OutputVariable = variable_members +
  fuzzy :: Aggregated
  defuzzifier :: "Defuzzifier option"
  lock_previous :: bool
  default_value :: scalar
  previous_value :: scalar

text \<open>The properties \<^verbatim>\<open>minimum\<close> and \<^verbatim>\<open>maximum\<close> of an OutputVariable.\<close>

definition OutputVariable_minimum :: "OutputVariable \<Rightarrow> scalar" where
  "OutputVariable_minimum self = fuzzy_minimum (fuzzy self)"

definition OutputVariable_minimum_setter :: "scalar \<Rightarrow> OutputVariable \<Rightarrow> OutputVariable" where
  "OutputVariable_minimum_setter v self = self\<lparr>fuzzy := (fuzzy self)\<lparr>fuzzy_minimum := v\<rparr>\<rparr>"

definition OutputVariable_maximum :: "OutputVariable \<Rightarrow> scalar" where
  "OutputVariable_maximum self = fuzzy_maximum (fuzzy self)"

definition OutputVariable_maximum_setter :: "scalar \<Rightarrow> OutputVariable \<Rightarrow> OutputVariable" where
  "OutputVariable_maximum_setter v self = self\<lparr>fuzzy := (fuzzy self)\<lparr>fuzzy_maximum := v\<rparr>\<rparr>"

text \<open>
  \<^verbatim>\<open>name\<close> is a plain attribute: the class defines no property of that name, so a
  write stores the new name in the variable itself.
\<close>

definition OutputVariable_name_setter :: "string \<Rightarrow> OutputVariable \<Rightarrow> OutputVariable" where
  "OutputVariable_name_setter v self = self\<lparr>name := v\<rparr>"

text \<open>The inherited setter of \<^verbatim>\<open>value\<close>, reading the range through the properties.\<close>

definition OutputVariable_value_setter :: "ndarray \<Rightarrow> OutputVariable \<Rightarrow> OutputVariable" where
  "OutputVariable_value_setter v self =
     self\<lparr>u_value := (if lock_range self
                       then np_clip v (OutputVariable_minimum self) (OutputVariable_maximum self)
                       else v)\<rparr>"

text \<open>
  The constructor: the aggregated set first, then the members of Variable through
  the properties, then the members of OutputVariable.
\<close>

definition OutputVariable_init ::
  "string \<Rightarrow> string \<Rightarrow> bool \<Rightarrow> scalar \<Rightarrow> scalar \<Rightarrow> bool \<Rightarrow> bool \<Rightarrow> scalar \<Rightarrow> SNorm option
     \<Rightarrow> Defuzzifier option \<Rightarrow> Term list \<Rightarrow> OutputVariable" where
  "OutputVariable_init nm descr en mn mx lr lp dv ag df ts =
     (let self = \<lparr>name = nm, description = descr, enabled = en, lock_range = lr, terms = ts,
                  u_value = [],
                  fuzzy = \<lparr>fuzzy_name = nm, fuzzy_minimum = mn, fuzzy_maximum = mx,
                           aggregation = ag, fuzzy_terms = []\<rparr>,
                  defuzzifier = None, lock_previous = False, default_value = NaN,
                  previous_value = NaN\<rparr>;
          self = OutputVariable_name_setter nm self;
          self = OutputVariable_minimum_setter mn self;
          self = OutputVariable_maximum_setter mx self;
          self = OutputVariable_value_setter [NaN] self
      in self\<lparr>defuzzifier := df, lock_previous := lp, default_value := dv,
              previous_value := NaN\<rparr>)"

text \<open>
  The loop that locks previous values: \<open>previous\<close> starts at the variable's
  \<^verbatim>\<open>previous_value\<close>; a NaN element is overwritten with it, any other element
  becomes the new \<open>previous\<close>.
\<close>

fun lock_previous_loop :: "scalar \<Rightarrow> ndarray \<Rightarrow> ndarray" where
  "lock_previous_loop previous [] = []"
| "lock_previous_loop previous (v_i # rest) =
     (if isnan v_i then previous # lock_previous_loop previous rest
      else v_i # lock_previous_loop v_i rest)"

text \<open>\<^verbatim>\<open>value[np.isnan(value)] = default_value\<close>.\<close>

definition apply_default :: "scalar \<Rightarrow> ndarray \<Rightarrow> ndarray" where
  "apply_default d v = map (\<lambda>v_i. if isnan v_i then d else v_i) v"

text \<open>
  \<^verbatim>\<open>defuzzify\<close> returns the outcome of the call (\<open>Inl\<close> the exception raised) together
  with the variable as the call leaves it.
\<close>

definition defuzzify :: "OutputVariable \<Rightarrow> (exn + unit) \<times> OutputVariable" where
  "defuzzify self =
     (if \<not> enabled self then (Inr (), self)
      else case defuzzifier self of
        None \<Rightarrow> (Inl ValueError, self)
      | Some d \<Rightarrow>
         (case d (fuzzy self) (OutputVariable_minimum self) (OutputVariable_maximum self) of
            Inl e \<Rightarrow> (Inl e, self)
          | Inr raw \<Rightarrow>
             (case np_take_last (value_getter self) of
                Inl e \<Rightarrow> (Inl e, self)
              | Inr p \<Rightarrow>
                 (let self = self\<lparr>previous_value := p\<rparr>;
                      v = (if lock_previous self
                           then lock_previous_loop (previous_value self) raw else raw);
                      v = (if \<not> isnan (default_value self)
                           then apply_default (default_value self) v else v)
                  in (Inr (), OutputVariable_value_setter v self)))))"

text \<open>\<^verbatim>\<open>clear\<close>: the assignment to \<^verbatim>\<open>value\<close> goes through the setter.\<close>

definition clear :: "OutputVariable \<Rightarrow> OutputVariable" where
  "clear self =
     (let self = self\<lparr>fuzzy := Aggregated_clear (fuzzy self)\<rparr>;
          self = self\<lparr>previous_value := NaN\<rparr>
      in OutputVariable_value_setter [NaN] self)"

section \<open>The fuzzified value and the highest membership, as specified\<close>

text \<open>
  The words of the specification, to compare \<^verbatim>\<open>fuzzify\<close> and \<^verbatim>\<open>highest_membership\<close>
  with. The membership degree of a term at \<open>x\<close> is the result of its membership
  function, NaN when the evaluation raises. A term is \<open>suppressible\<close> at \<open>x\<close> when its
  membership function returns or raises ValueError, the evaluation error that the
  methods suppress.
\<close>

definition degree_at :: "Term \<Rightarrow> scalar \<Rightarrow> scalar" where
  "degree_at t x = (case membership t x of Inl e \<Rightarrow> NaN | Inr y \<Rightarrow> y)"

definition suppressible :: "scalar \<Rightarrow> Term \<Rightarrow> bool" where
  "suppressible x t = (case membership t x of Inl e \<Rightarrow> e = ValueError | Inr y \<Rightarrow> True)"

text \<open>
  The fuzzified value has one entry per term in declared order, each of the form
  degree/name; before the second and every later entry stands a minus sign when
  the degree is negative and a plus sign otherwise (non-negative or NaN).
\<close>

definition spec_separator :: "scalar \<Rightarrow> string" where
  "spec_separator mu = (if scalar_lt mu (Fin 0) then '' - '' else '' + '')"

definition spec_entry :: "(scalar \<Rightarrow> string) \<Rightarrow> scalar \<Rightarrow> Term \<Rightarrow> string" where
  "spec_entry op_str x t = op_str (degree_at t x) @ ''/'' @ term_name t"

definition spec_fuzzify :: "(scalar \<Rightarrow> string) \<Rightarrow> Term list \<Rightarrow> scalar \<Rightarrow> string" where
  "spec_fuzzify op_str ts x =
     (case ts of
        [] \<Rightarrow> []
      | t # rest \<Rightarrow>
          spec_entry op_str x t
            @ concat (map (\<lambda>t'. spec_separator (degree_at t' x) @ spec_entry op_str x t') rest))"

section \<open>Example inputs\<close>

text \<open>
  A defuzzifier that returns a fixed raw result, and the output variable of the
  lock-precedence scenario: \<^verbatim>\<open>steer\<close> with range [0, 1], \<^verbatim>\<open>lock_previous\<close> set and
  default 0.5, holding \<open>held\<close>, whose defuzzifier returns \<open>raw\<close>.
\<close>

definition constant_defuzzifier :: "ndarray \<Rightarrow> Defuzzifier" where
  "constant_defuzzifier raw = (\<lambda>f lo hi. Inr raw)"

definition steer :: "bool \<Rightarrow> ndarray \<Rightarrow> ndarray \<Rightarrow> OutputVariable" where
  "steer lr held raw =
     OutputVariable_value_setter held
       (OutputVariable_init ''steer'' [] True (Fin 0) (Fin 1) lr True (Fin (1/2)) None
          (Some (constant_defuzzifier raw)) [])"

text \<open>
  An input variable with range [0, 1] over given terms, a term whose membership
  function has the same outcome everywhere, and a formatter of the few scalars
  the examples print.
\<close>

definition obstacle :: "bool \<Rightarrow> Term list \<Rightarrow> Variable" where
  "obstacle lr ts = Variable_init ''obstacle'' [] True (Fin 0) (Fin 1) lr ts"

definition constant_term :: "string \<Rightarrow> exn + scalar \<Rightarrow> Term" where
  "constant_term nm outcome = \<lparr>term_name = nm, membership = (\<lambda>x. outcome)\<rparr>"

definition show_scalar :: "scalar \<Rightarrow> string" where
  "show_scalar s =
     (case s of
        NaN \<Rightarrow> ''nan'' | PosInf \<Rightarrow> ''inf'' | NegInf \<Rightarrow> ''-inf''
      | Fin r \<Rightarrow> (if r = 1/4 then ''0.250'' else if r = 3/4 then ''0.750''
                  else if r = - (1/2) then ''-0.500'' else ''0.000''))"

section \<open>Clipping\<close>

lemma clip1_NaN: "clip1 NaN lo hi = NaN"
  by (simp add: clip1_def np_minimum_def np_maximum_def isnan_def)

lemma clip1_range:
  "scalar_le lo hi \<Longrightarrow> \<not> isnan (clip1 a lo hi) \<Longrightarrow>
     scalar_le lo (clip1 a lo hi) \<and> scalar_le (clip1 a lo hi) hi"
  by (cases a; cases lo; cases hi)
     (simp_all add: clip1_def np_minimum_def np_maximum_def isnan_def scalar_le_def)

lemma clip1_id:
  "scalar_le lo a \<Longrightarrow> scalar_le a hi \<Longrightarrow> clip1 a lo hi = a"
  by (cases a; cases lo; cases hi)
     (simp_all add: clip1_def np_minimum_def np_maximum_def isnan_def scalar_le_def)

lemma clip1_cases:
  "scalar_le lo hi \<Longrightarrow>
     clip1 a lo hi = (if isnan a then NaN else if scalar_lt a lo then lo
                      else if scalar_gt a hi then hi else a)"
  by (cases a; cases lo; cases hi)
     (simp_all add: clip1_def np_minimum_def np_maximum_def isnan_def scalar_le_def
        scalar_gt_def)

section \<open>Defuzzification of an output variable\<close>

text \<open>
  A call on an enabled variable with a defuzzifier that returns \<open>raw\<close>, the variable
  holding a non-empty array: the previous value becomes the last element held, the
  raw result goes through the lock of previous values and the default, and the
  setter commits it.
\<close>

lemma defuzzify_run:
  assumes "enabled ov" "defuzzifier ov = Some d"
    "d (fuzzy ov) (OutputVariable_minimum ov) (OutputVariable_maximum ov) = Inr raw"
    "value_getter ov \<noteq> []"
  shows "defuzzify ov =
     (Inr (), OutputVariable_value_setter
        ((if \<not> isnan (default_value ov) then apply_default (default_value ov) else id)
          ((if lock_previous ov then lock_previous_loop (last (value_getter ov)) else id) raw))
        (ov\<lparr>previous_value := last (value_getter ov)\<rparr>))"
  using assms by (simp add: defuzzify_def np_take_last_def Let_def value_getter_def)

lemmas steer_simps = steer_def OutputVariable_init_def OutputVariable_value_setter_def
  OutputVariable_name_setter_def OutputVariable_minimum_setter_def
  OutputVariable_maximum_setter_def OutputVariable_minimum_def OutputVariable_maximum_def
  constant_defuzzifier_def value_getter_def np_clip_def clip1_def np_minimum_def
  np_maximum_def isnan_def Let_def scalar_le_def

text \<open>
  C1. Lock precedence. An enabled output variable with \<^verbatim>\<open>lock_previous\<close> holds the
  finite value \<open>p\<close> of the prior pass (within the range when \<^verbatim>\<open>lock_range\<close> is set,
  as the setter of that pass left it). If the raw result of the defuzzifier is NaN,
  the value stored by \<^verbatim>\<open>defuzzify\<close> is \<open>p\<close>, whatever the default value is. On a pass
  whose raw result is the finite \<open>y\<close>, with \<^verbatim>\<open>lock_range\<close> set, the value stored is
  \<open>y\<close> clipped to the range, whatever \<^verbatim>\<open>lock_previous\<close> and the previous value are.
\<close>

theorem lock_previous_then_lock_range:
  "(enabled ov \<and> defuzzifier ov = Some d \<and> lock_previous ov
      \<and> value_getter ov = [Fin p]
      \<and> (lock_range ov \<longrightarrow> scalar_le (OutputVariable_minimum ov) (Fin p)
                              \<and> scalar_le (Fin p) (OutputVariable_maximum ov))
      \<and> d (fuzzy ov) (OutputVariable_minimum ov) (OutputVariable_maximum ov) = Inr [NaN]
    \<longrightarrow> fst (defuzzify ov) = Inr () \<and> value_getter (snd (defuzzify ov)) = [Fin p])
   \<and> (enabled ov_next \<and> defuzzifier ov_next = Some d_next \<and> lock_range ov_next
      \<and> value_getter ov_next \<noteq> []
      \<and> d_next (fuzzy ov_next) (OutputVariable_minimum ov_next) (OutputVariable_maximum ov_next) = Inr [Fin y]
    \<longrightarrow> fst (defuzzify ov_next) = Inr ()
      \<and> value_getter (snd (defuzzify ov_next))
          = [clip1 (Fin y) (OutputVariable_minimum ov_next) (OutputVariable_maximum ov_next)])"
proof (intro conjI impI)
  assume a: "enabled ov \<and> defuzzifier ov = Some d \<and> lock_previous ov
      \<and> value_getter ov = [Fin p]
      \<and> (lock_range ov \<longrightarrow> scalar_le (OutputVariable_minimum ov) (Fin p)
                              \<and> scalar_le (Fin p) (OutputVariable_maximum ov))
      \<and> d (fuzzy ov) (OutputVariable_minimum ov) (OutputVariable_maximum ov) = Inr [NaN]"
  then have run: "defuzzify ov = (Inr (), OutputVariable_value_setter
        ((if \<not> isnan (default_value ov) then apply_default (default_value ov) else id)
          ((if lock_previous ov then lock_previous_loop (last (value_getter ov)) else id) [NaN]))
        (ov\<lparr>previous_value := last (value_getter ov)\<rparr>))"
    by (intro defuzzify_run [of ov d]) simp_all
  show "fst (defuzzify ov) = Inr ()" by (simp add: run)
  from a have filled:
    "(if \<not> isnan (default_value ov) then apply_default (default_value ov) else id)
       ((if lock_previous ov then lock_previous_loop (last (value_getter ov)) else id) [NaN])
     = [Fin p]"
    by (simp add: isnan_def apply_default_def)
  from a show "value_getter (snd (defuzzify ov)) = [Fin p]"
    unfolding run filled
    by (simp add: OutputVariable_value_setter_def value_getter_def np_clip_def clip1_id
        OutputVariable_minimum_def OutputVariable_maximum_def)
next
  assume a: "enabled ov_next \<and> defuzzifier ov_next = Some d_next \<and> lock_range ov_next
      \<and> value_getter ov_next \<noteq> []
      \<and> d_next (fuzzy ov_next) (OutputVariable_minimum ov_next) (OutputVariable_maximum ov_next) = Inr [Fin y]"
  then have run: "defuzzify ov_next = (Inr (), OutputVariable_value_setter
        ((if \<not> isnan (default_value ov_next) then apply_default (default_value ov_next) else id)
          ((if lock_previous ov_next then lock_previous_loop (last (value_getter ov_next)) else id)
             [Fin y]))
        (ov_next\<lparr>previous_value := last (value_getter ov_next)\<rparr>))"
    by (intro defuzzify_run [of ov_next d_next]) simp_all
  show "fst (defuzzify ov_next) = Inr ()" by (simp add: run)
  have filled:
    "(if \<not> isnan (default_value ov_next) then apply_default (default_value ov_next) else id)
       ((if lock_previous ov_next then lock_previous_loop (last (value_getter ov_next)) else id)
          [Fin y])
     = [Fin y]"
    by (simp add: isnan_def apply_default_def)
  from a show "value_getter (snd (defuzzify ov_next))
          = [clip1 (Fin y) (OutputVariable_minimum ov_next) (OutputVariable_maximum ov_next)]"
    unfolding run filled
    by (simp add: OutputVariable_value_setter_def value_getter_def np_clip_def
        OutputVariable_minimum_def OutputVariable_maximum_def)
qed

text \<open>
  The scenario of the specification: the variable holds 0.8 and the raw result is
  NaN, the value stays 0.8 although the default is 0.5; the next raw result is 1.7,
  the value is 1.0.
\<close>

theorem lock_previous_then_lock_range_witness:
  "enabled (steer True [Fin (8/10)] [NaN])
   \<and> defuzzifier (steer True [Fin (8/10)] [NaN]) = Some (constant_defuzzifier [NaN])
   \<and> lock_previous (steer True [Fin (8/10)] [NaN])
   \<and> lock_range (steer True [Fin (8/10)] [NaN])
   \<and> default_value (steer True [Fin (8/10)] [NaN]) = Fin (1/2)
   \<and> value_getter (steer True [Fin (8/10)] [NaN]) = [Fin (8/10)]
   \<and> scalar_le (OutputVariable_minimum (steer True [Fin (8/10)] [NaN])) (Fin (8/10))
   \<and> scalar_le (Fin (8/10)) (OutputVariable_maximum (steer True [Fin (8/10)] [NaN]))
   \<and> value_getter (snd (defuzzify (steer True [Fin (8/10)] [NaN]))) = [Fin (8/10)]
   \<and> value_getter (snd (defuzzify (steer True [Fin (8/10)] [Fin (17/10)]))) = [Fin 1]"
  using lock_previous_then_lock_range
    [where ov = "steer True [Fin (8/10)] [NaN]" and d = "constant_defuzzifier [NaN]"
       and p = "8/10" and ov_next = "steer True [Fin (8/10)] [Fin (17/10)]"
       and d_next = "constant_defuzzifier [Fin (17/10)]" and y = "17/10"]
  by (simp add: steer_simps)

text \<open>
  C2. An infinite raw result is not treated like NaN. The variable \<^verbatim>\<open>steer\<close> (no
  \<^verbatim>\<open>lock_range\<close>, \<^verbatim>\<open>lock_previous\<close> set, default 0.5) holds 0.8 and its defuzzifier
  returns +\<infinity>: \<^verbatim>\<open>defuzzify\<close> stores +\<infinity>, neither the previous value 0.8 nor the
  default 0.5; likewise for -\<infinity>, and without \<^verbatim>\<open>lock_previous\<close>. The class
  documentation says that both properties override every non-finite result.
\<close>

theorem infinite_raw_result_is_stored:
  "lock_previous (steer False [Fin (8/10)] [PosInf])
   \<and> default_value (steer False [Fin (8/10)] [PosInf]) = Fin (1/2)
   \<and> value_getter (steer False [Fin (8/10)] [PosInf]) = [Fin (8/10)]
   \<and> defuzzify (steer False [Fin (8/10)] [PosInf])
       = (Inr (), (steer False [PosInf] [PosInf])\<lparr>previous_value := Fin (8/10)\<rparr>)
   \<and> value_getter (snd (defuzzify (steer False [Fin (8/10)] [NegInf]))) = [NegInf]
   \<and> value_getter
        (snd (defuzzify ((steer False [Fin (8/10)] [PosInf])\<lparr>lock_previous := False\<rparr>)))
       = [PosInf]"
  by (simp add: steer_simps defuzzify_def np_take_last_def apply_default_def)

text \<open>
  C3, as stated, fails: the variable holds NaN and its previous value is 0.8; after
  \<^verbatim>\<open>defuzzify\<close> the previous value is NaN, not 0.8.
\<close>

theorem previous_value_overwritten_by_NaN:
  "value_getter ((steer False [NaN] [Fin (3/10)])\<lparr>previous_value := Fin (8/10)\<rparr>) = [NaN]
   \<and> previous_value ((steer False [NaN] [Fin (3/10)])\<lparr>previous_value := Fin (8/10)\<rparr>)
       = Fin (8/10)
   \<and> fst (defuzzify ((steer False [NaN] [Fin (3/10)])\<lparr>previous_value := Fin (8/10)\<rparr>))
       = Inr ()
   \<and> previous_value
        (snd (defuzzify ((steer False [NaN] [Fin (3/10)])\<lparr>previous_value := Fin (8/10)\<rparr>)))
       = NaN
   \<and> previous_value
        (snd (defuzzify ((steer False [NaN] [Fin (3/10)])\<lparr>previous_value := Fin (8/10)\<rparr>)))
       \<noteq> previous_value ((steer False [NaN] [Fin (3/10)])\<lparr>previous_value := Fin (8/10)\<rparr>)"
  by (simp add: steer_simps defuzzify_def np_take_last_def apply_default_def)

text \<open>
  C3, amended. When \<^verbatim>\<open>defuzzify\<close> runs on an enabled variable (its defuzzifier
  returns a raw result and the variable holds a non-empty array), the previous
  value becomes the last element of the value held before the call, whether that
  element is finite or not.
\<close>

theorem previous_value_is_last_held:
  assumes "enabled ov" "defuzzifier ov = Some d"
    "d (fuzzy ov) (OutputVariable_minimum ov) (OutputVariable_maximum ov) = Inr raw"
    "value_getter ov \<noteq> []"
  shows "fst (defuzzify ov) = Inr ()
     \<and> previous_value (snd (defuzzify ov)) = last (value_getter ov)"
  by (simp add: defuzzify_run [OF assms] OutputVariable_value_setter_def)

theorem previous_value_is_last_held_witness:
  "enabled (steer False [Fin (8/10)] [NaN])
   \<and> defuzzifier (steer False [Fin (8/10)] [NaN]) = Some (constant_defuzzifier [NaN])
   \<and> constant_defuzzifier [NaN] (fuzzy (steer False [Fin (8/10)] [NaN]))
        (OutputVariable_minimum (steer False [Fin (8/10)] [NaN]))
        (OutputVariable_maximum (steer False [Fin (8/10)] [NaN])) = Inr [NaN]
   \<and> value_getter (steer False [Fin (8/10)] [NaN]) \<noteq> []
   \<and> previous_value (steer False [Fin (8/10)] [NaN]) = NaN
   \<and> previous_value (snd (defuzzify (steer False [Fin (8/10)] [NaN]))) = Fin (8/10)"
  using previous_value_is_last_held
    [of "steer False [Fin (8/10)] [NaN]" "constant_defuzzifier [NaN]" "[NaN]"]
  by (simp add: steer_simps)

text \<open>
  C4. \<^verbatim>\<open>clear\<close> empties the aggregated fuzzy set and sets the previous value and the
  value to NaN, whatever \<^verbatim>\<open>lock_range\<close>, \<^verbatim>\<open>lock_previous\<close>, the range and the default
  value are: clipping NaN gives NaN.
\<close>

theorem clear_resets:
  "fuzzy_terms (fuzzy (clear ov)) = [] \<and> previous_value (clear ov) = NaN
     \<and> value_getter (clear ov) = [NaN]"
  by (simp add: clear_def Aggregated_clear_def OutputVariable_value_setter_def Let_def
      value_getter_def np_clip_def clip1_NaN)

text \<open>A call of \<^verbatim>\<open>defuzzify\<close> that ran to its end committed through the setter.\<close>

lemma defuzzify_stores_through_setter:
  assumes "enabled ov" "fst (defuzzify ov) = Inr ()"
  shows "\<exists>v p. snd (defuzzify ov) = OutputVariable_value_setter v (ov\<lparr>previous_value := p\<rparr>)"
  using assms
  by (auto simp: defuzzify_def Let_def split: option.splits sum.splits)

text \<open>
  C5. Assigning \<open>x\<close> to the value of a Variable stores \<open>x\<close> clipped to the range when
  \<^verbatim>\<open>lock_range\<close> is set and \<open>x\<close> itself otherwise. On a range with minimum \<open>\<le>\<close> maximum
  (the invariant of the data model) clipping is the clamp: NaN stays, a smaller
  element becomes the minimum, a larger one the maximum. Consequently, after
  \<^verbatim>\<open>defuzzify\<close> ran on an enabled output variable with \<^verbatim>\<open>lock_range\<close> set, every
  finite element of the stored value lies between minimum and maximum.
\<close>

theorem value_setter_clamps:
  "value_getter (Variable_value_setter x v)
     = (if lock_range v then np_clip x (minimum v) (maximum v) else x)
   \<and> (scalar_le lo hi \<longrightarrow>
        clip1 a lo hi = (if isnan a then NaN else if scalar_lt a lo then lo
                         else if scalar_gt a hi then hi else a))
   \<and> (enabled ov \<and> lock_range ov \<and> fst (defuzzify ov) = Inr ()
        \<and> scalar_le (OutputVariable_minimum ov) (OutputVariable_maximum ov)
      \<longrightarrow> (\<forall>y \<in> set (value_getter (snd (defuzzify ov))). isfinite y \<longrightarrow>
             scalar_le (OutputVariable_minimum ov) y \<and> scalar_le y (OutputVariable_maximum ov)))"
proof (intro conjI impI ballI)
  show "value_getter (Variable_value_setter x v)
     = (if lock_range v then np_clip x (minimum v) (maximum v) else x)"
    by (simp add: Variable_value_setter_def value_getter_def)
next
  assume "scalar_le lo hi"
  then show "clip1 a lo hi = (if isnan a then NaN else if scalar_lt a lo then lo
                         else if scalar_gt a hi then hi else a)"
    by (rule clip1_cases)
next
  fix y
  assume a: "enabled ov \<and> lock_range ov \<and> fst (defuzzify ov) = Inr ()
        \<and> scalar_le (OutputVariable_minimum ov) (OutputVariable_maximum ov)"
    and y: "y \<in> set (value_getter (snd (defuzzify ov)))" and fin: "isfinite y"
  from a obtain w p where
    "snd (defuzzify ov) = OutputVariable_value_setter w (ov\<lparr>previous_value := p\<rparr>)"
    using defuzzify_stores_through_setter by blast
  with a have "value_getter (snd (defuzzify ov))
      = np_clip w (OutputVariable_minimum ov) (OutputVariable_maximum ov)"
    by (simp add: OutputVariable_value_setter_def value_getter_def
        OutputVariable_minimum_def OutputVariable_maximum_def)
  with y obtain w_i where
    "y = clip1 w_i (OutputVariable_minimum ov) (OutputVariable_maximum ov)"
    by (auto simp: np_clip_def)
  moreover from fin have "\<not> isnan y" by (cases y) (simp_all add: isnan_def)
  ultimately show "scalar_le (OutputVariable_minimum ov) y"
    and "scalar_le y (OutputVariable_maximum ov)"
    using a clip1_range by blast+
qed

theorem value_setter_clamps_witness:
  "value_getter
     (Variable_value_setter [Fin (17/10), Fin (- 3), Fin (1/2), NaN] (obstacle True []))
     = [Fin 1, Fin 0, Fin (1/2), NaN]
   \<and> value_getter
       (Variable_value_setter [Fin (17/10), Fin (- 3), Fin (1/2), NaN] (obstacle False []))
     = [Fin (17/10), Fin (- 3), Fin (1/2), NaN]
   \<and> scalar_le (Fin 0) (Fin 1)
   \<and> clip1 (Fin (17/10)) (Fin 0) (Fin 1) = Fin 1
   \<and> enabled (steer True [Fin (8/10)] [Fin (17/10)])
   \<and> lock_range (steer True [Fin (8/10)] [Fin (17/10)])
   \<and> fst (defuzzify (steer True [Fin (8/10)] [Fin (17/10)])) = Inr ()
   \<and> scalar_le (OutputVariable_minimum (steer True [Fin (8/10)] [Fin (17/10)]))
        (OutputVariable_maximum (steer True [Fin (8/10)] [Fin (17/10)]))
   \<and> value_getter (snd (defuzzify (steer True [Fin (8/10)] [Fin (17/10)]))) = [Fin 1]
   \<and> scalar_le (OutputVariable_minimum (steer True [Fin (8/10)] [Fin (17/10)])) (Fin 1)
   \<and> scalar_le (Fin 1) (OutputVariable_maximum (steer True [Fin (8/10)] [Fin (17/10)]))"
  using value_setter_clamps
    [where x = "[Fin (17/10), Fin (- 3), Fin (1/2), NaN]" and v = "obstacle True []"
       and lo = "Fin 0" and hi = "Fin 1" and a = "Fin (17/10)"
       and ov = "steer True [Fin (8/10)] [Fin (17/10)]"]
    value_setter_clamps
    [where x = "[Fin (17/10), Fin (- 3), Fin (1/2), NaN]" and v = "obstacle False []"
       and lo = "Fin 0" and hi = "Fin 1" and a = "Fin (17/10)"
       and ov = "steer True [Fin (8/10)] [Fin (17/10)]"]
  by (simp add: steer_simps obstacle_def Variable_init_def Variable_value_setter_def
      defuzzify_def np_take_last_def apply_default_def scalar_gt_def)

section \<open>Fuzzification\<close>

lemma membership_suppressed_ok:
  "suppressible x t \<Longrightarrow> membership_suppressed t x = Inr (degree_at t x)"
  by (simp add: suppressible_def membership_suppressed_def degree_at_def split: sum.splits)

lemma separator_agrees:
  "('' '' @ (if scalar_ge fx (Fin 0) \<or> isnan fx then ''+'' else ''-'') @ '' '')
     = spec_separator fx"
  by (cases fx) (simp_all add: spec_separator_def scalar_ge_def scalar_le_def isnan_def)

text \<open>
  The loop, started with any \<open>result\<close>: the first entry has no separator exactly when
  \<open>result\<close> is empty.
\<close>

lemma fuzzify_loop_entries:
  "list_all (suppressible x) ts \<Longrightarrow>
   fuzzify_loop op_str x ts result =
     Inr (result @
       (if result = [] then
          (case ts of [] \<Rightarrow> []
           | t # rest \<Rightarrow> spec_entry op_str x t
               # map (\<lambda>t'. spec_separator (degree_at t' x) @ spec_entry op_str x t') rest)
        else map (\<lambda>t'. spec_separator (degree_at t' x) @ spec_entry op_str x t') ts))"
proof (induction ts arbitrary: result)
  case Nil
  then show ?case by simp
next
  case (Cons t ts)
  then have t: "membership_suppressed t x = Inr (degree_at t x)"
    and ts: "list_all (suppressible x) ts"
    by (simp_all add: membership_suppressed_ok)
  show ?case
  proof (cases "result = []")
    case True
    then show ?thesis
      using Cons.IH [OF ts, of "[op_str (degree_at t x) @ ''/'' @ term_name t]"] t
      by (simp add: spec_entry_def)
  next
    case False
    have sep: "'' '' @ (if scalar_ge (degree_at t x) (Fin 0) \<or> isnan (degree_at t x)
                       then ''+'' else ''-'') @ '' '' @ op_str (degree_at t x) @ ''/''
                 @ term_name t
             = spec_separator (degree_at t x) @ spec_entry op_str x t"
      using separator_agrees [of "degree_at t x"] by (simp add: spec_entry_def)
    from False show ?thesis
      using Cons.IH
        [OF ts, of "result @ [spec_separator (degree_at t x) @ spec_entry op_str x t]"] t sep
      by (simp add: Let_def)
  qed
qed

text \<open>
  C6. When every term's membership function returns or raises the evaluation error
  (ValueError) at \<open>x\<close>, \<^verbatim>\<open>fuzzify\<close> returns the specified string: one entry
  degree/name per term in declared order, the degree of a raising term printed as
  NaN, with a plus or minus sign between entries according to the sign of the
  degree that follows.
\<close>

theorem fuzzify_format:
  assumes "list_all (suppressible x) (terms v)"
  shows "fuzzify op_str v x = Inr (spec_fuzzify op_str (terms v) x)"
  using fuzzify_loop_entries [OF assms, of op_str "[]"]
  by (simp add: fuzzify_def spec_fuzzify_def split: list.splits)

theorem fuzzify_format_witness:
  "list_all (suppressible (Fin 0))
     (terms (obstacle False
        [constant_term ''left'' (Inr (Fin (1/4))), constant_term ''middle'' (Inl ValueError),
         constant_term ''right'' (Inr (Fin (- (1/2)))), constant_term ''far'' (Inr NaN)]))
   \<and> fuzzify show_scalar
       (obstacle False
          [constant_term ''left'' (Inr (Fin (1/4))), constant_term ''middle'' (Inl ValueError),
           constant_term ''right'' (Inr (Fin (- (1/2)))), constant_term ''far'' (Inr NaN)])
       (Fin 0)
     = Inr ''0.250/left + nan/middle - -0.500/right + nan/far''"
  using fuzzify_format
    [of "Fin 0" "obstacle False
        [constant_term ''left'' (Inr (Fin (1/4))), constant_term ''middle'' (Inl ValueError),
         constant_term ''right'' (Inr (Fin (- (1/2)))), constant_term ''far'' (Inr NaN)]"
        show_scalar]
  by (simp add: obstacle_def Variable_init_def Variable_value_setter_def constant_term_def
      suppressible_def spec_fuzzify_def spec_entry_def spec_separator_def degree_at_def
      show_scalar_def)

section \<open>Defuzzification without a defuzzifier, and of a disabled variable\<close>

text \<open>
  C7. On an enabled output variable without a defuzzifier, \<^verbatim>\<open>defuzzify\<close> raises
  ValueError and leaves the variable as it was: the value, the previous value and
  the aggregated fuzzy set are unchanged.
\<close>

theorem defuzzify_without_defuzzifier:
  "enabled ov \<Longrightarrow> defuzzifier ov = None \<Longrightarrow> defuzzify ov = (Inl ValueError, ov)"
  by (simp add: defuzzify_def)

theorem defuzzify_without_defuzzifier_witness:
  "enabled ((steer True [Fin (8/10)] [NaN])\<lparr>defuzzifier := None\<rparr>)
   \<and> defuzzifier ((steer True [Fin (8/10)] [NaN])\<lparr>defuzzifier := None\<rparr>) = None
   \<and> defuzzify ((steer True [Fin (8/10)] [NaN])\<lparr>defuzzifier := None\<rparr>)
       = (Inl ValueError, (steer True [Fin (8/10)] [NaN])\<lparr>defuzzifier := None\<rparr>)"
  using defuzzify_without_defuzzifier
    [of "(steer True [Fin (8/10)] [NaN])\<lparr>defuzzifier := None\<rparr>"]
  by (simp add: steer_simps)

text \<open>
  C8. A write to the minimum or the maximum of an output variable is a write to the
  aggregated set, so the two agree. A write to the name is not mirrored: the
  variable \<^verbatim>\<open>steer\<close>, renamed \<^verbatim>\<open>angle\<close>, has an aggregated set still named \<^verbatim>\<open>steer\<close>,
  although the constructor's comment says that name, minimum and maximum are
  properties that point to the aggregated set.
\<close>

theorem name_write_not_mirrored:
  "name (steer True [NaN] [NaN]) = ''steer''
   \<and> fuzzy_name (fuzzy (steer True [NaN] [NaN])) = ''steer''
   \<and> name (OutputVariable_name_setter ''angle'' (steer True [NaN] [NaN])) = ''angle''
   \<and> fuzzy_name (fuzzy (OutputVariable_name_setter ''angle'' (steer True [NaN] [NaN])))
       = ''steer''"
  by (simp add: steer_simps)

lemma range_write_mirrored:
  "fuzzy_minimum (fuzzy (OutputVariable_minimum_setter v ov))
     = OutputVariable_minimum (OutputVariable_minimum_setter v ov)
   \<and> OutputVariable_minimum (OutputVariable_minimum_setter v ov) = v
   \<and> fuzzy_maximum (fuzzy (OutputVariable_maximum_setter v ov))
     = OutputVariable_maximum (OutputVariable_maximum_setter v ov)
   \<and> OutputVariable_maximum (OutputVariable_maximum_setter v ov) = v"
  by (simp add: OutputVariable_minimum_def OutputVariable_maximum_def
      OutputVariable_minimum_setter_def OutputVariable_maximum_setter_def)

text \<open>
  C9. On a disabled output variable \<^verbatim>\<open>defuzzify\<close> returns at once without raising,
  with or without a defuzzifier, and leaves the variable as it was.
\<close>

theorem defuzzify_disabled:
  "\<not> enabled ov \<Longrightarrow> defuzzify ov = (Inr (), ov)"
  by (simp add: defuzzify_def)

theorem defuzzify_disabled_witness:
  "\<not> enabled ((steer True [Fin (8/10)] [NaN])\<lparr>enabled := False, defuzzifier := None\<rparr>)
   \<and> defuzzifier ((steer True [Fin (8/10)] [NaN])\<lparr>enabled := False, defuzzifier := None\<rparr>)
       = None
   \<and> defuzzify ((steer True [Fin (8/10)] [NaN])\<lparr>enabled := False, defuzzifier := None\<rparr>)
       = (Inr (), (steer True [Fin (8/10)] [NaN])\<lparr>enabled := False, defuzzifier := None\<rparr>)"
  using defuzzify_disabled
    [of "(steer True [Fin (8/10)] [NaN])\<lparr>enabled := False, defuzzifier := None\<rparr>"]
  by simp

section \<open>The highest membership\<close>

text \<open>The order of scalars, and the degree of a term that is greater than a scalar.\<close>

lemma scalar_lt_trans: "scalar_lt a b \<Longrightarrow> scalar_lt b c \<Longrightarrow> scalar_lt a c"
  by (cases a; cases b; cases c) simp_all

lemma scalar_lt_irrefl: "\<not> scalar_lt a a"
  by (cases a) simp_all

lemma degree_gt_returned:
  "scalar_gt (degree_at t x) d \<Longrightarrow> membership t x = Inr (degree_at t x)"
  by (cases "membership t x"; cases d) (simp_all add: degree_at_def scalar_gt_def)

text \<open>
  The loop, started with any \<open>result\<close>: if no degree exceeds the degree carried, the
  result is returned as it is; otherwise the loop returns the first term of
  greatest degree.
\<close>

lemma highest_membership_loop_result:
  "list_all (suppressible x) ts \<Longrightarrow>
   (if \<exists>t \<in> set ts. scalar_gt (degree_at t x) d0 then
      (\<exists>i < length ts.
         highest_membership_loop x ts (d0, r0) = Inr (degree_at (ts ! i) x, Some (ts ! i))
         \<and> scalar_gt (degree_at (ts ! i) x) d0
         \<and> (\<forall>t \<in> set ts. \<not> scalar_gt (degree_at t x) (degree_at (ts ! i) x))
         \<and> (\<forall>j < i. degree_at (ts ! j) x \<noteq> degree_at (ts ! i) x))
    else highest_membership_loop x ts (d0, r0) = Inr (d0, r0))"
proof (induction ts arbitrary: d0 r0)
  case Nil
  then show ?case by simp
next
  case (Cons t ts)
  then have t: "membership_suppressed t x = Inr (degree_at t x)"
    and ts: "list_all (suppressible x) ts"
    by (simp_all add: membership_suppressed_ok)
  let ?y = "degree_at t x"
  show ?case
  proof (cases "scalar_gt ?y d0")
    case True
    then have step: "highest_membership_loop x (t # ts) (d0, r0)
        = highest_membership_loop x ts (?y, Some t)"
      using t by simp
    have some: "\<exists>t' \<in> set (t # ts). scalar_gt (degree_at t' x) d0"
      using True by simp
    show ?thesis
    proof (cases "\<exists>t' \<in> set ts. scalar_gt (degree_at t' x) ?y")
      case later: True
      with Cons.IH [OF ts, of ?y "Some t"] obtain i where i: "i < length ts"
        "highest_membership_loop x ts (?y, Some t) = Inr (degree_at (ts ! i) x, Some (ts ! i))"
        "scalar_gt (degree_at (ts ! i) x) ?y"
        "\<forall>t' \<in> set ts. \<not> scalar_gt (degree_at t' x) (degree_at (ts ! i) x)"
        "\<forall>j < i. degree_at (ts ! j) x \<noteq> degree_at (ts ! i) x"
        by auto
      have gt0: "scalar_gt (degree_at (ts ! i) x) d0"
        using i(3) True scalar_lt_trans by (auto simp: scalar_gt_def)
      have not_t: "\<not> scalar_gt ?y (degree_at (ts ! i) x)"
        using i(3) scalar_lt_trans scalar_lt_irrefl by (auto simp: scalar_gt_def)
      have neq: "?y \<noteq> degree_at (ts ! i) x"
        using i(3) scalar_lt_irrefl by (auto simp: scalar_gt_def)
      have before: "\<forall>j < Suc i. degree_at ((t # ts) ! j) x \<noteq> degree_at (ts ! i) x"
        using i(5) neq by (auto simp: nth_Cons split: nat.splits)
      have "Suc i < length (t # ts)
         \<and> highest_membership_loop x (t # ts) (d0, r0)
              = Inr (degree_at ((t # ts) ! Suc i) x, Some ((t # ts) ! Suc i))
         \<and> scalar_gt (degree_at ((t # ts) ! Suc i) x) d0
         \<and> (\<forall>t' \<in> set (t # ts).
               \<not> scalar_gt (degree_at t' x) (degree_at ((t # ts) ! Suc i) x))
         \<and> (\<forall>j < Suc i. degree_at ((t # ts) ! j) x \<noteq> degree_at ((t # ts) ! Suc i) x)"
        using i step gt0 not_t before by simp
      then have "\<exists>k < length (t # ts).
           highest_membership_loop x (t # ts) (d0, r0)
              = Inr (degree_at ((t # ts) ! k) x, Some ((t # ts) ! k))
         \<and> scalar_gt (degree_at ((t # ts) ! k) x) d0
         \<and> (\<forall>t' \<in> set (t # ts). \<not> scalar_gt (degree_at t' x) (degree_at ((t # ts) ! k) x))
         \<and> (\<forall>j < k. degree_at ((t # ts) ! j) x \<noteq> degree_at ((t # ts) ! k) x)"
        by blast
      with some show ?thesis by simp
    next
      case none: False
      with Cons.IH [OF ts, of ?y "Some t"]
      have "highest_membership_loop x ts (?y, Some t) = Inr (?y, Some t)" by simp
      with step have here: "highest_membership_loop x (t # ts) (d0, r0) = Inr (?y, Some t)"
        by simp
      have "0 < length (t # ts)
         \<and> highest_membership_loop x (t # ts) (d0, r0)
              = Inr (degree_at ((t # ts) ! 0) x, Some ((t # ts) ! 0))
         \<and> scalar_gt (degree_at ((t # ts) ! 0) x) d0
         \<and> (\<forall>t' \<in> set (t # ts). \<not> scalar_gt (degree_at t' x) (degree_at ((t # ts) ! 0) x))
         \<and> (\<forall>j < (0::nat). degree_at ((t # ts) ! j) x \<noteq> degree_at ((t # ts) ! 0) x)"
        using here True none scalar_lt_irrefl by (auto simp: scalar_gt_def)
      then have "\<exists>k < length (t # ts).
           highest_membership_loop x (t # ts) (d0, r0)
              = Inr (degree_at ((t # ts) ! k) x, Some ((t # ts) ! k))
         \<and> scalar_gt (degree_at ((t # ts) ! k) x) d0
         \<and> (\<forall>t' \<in> set (t # ts). \<not> scalar_gt (degree_at t' x) (degree_at ((t # ts) ! k) x))
         \<and> (\<forall>j < k. degree_at ((t # ts) ! j) x \<noteq> degree_at ((t # ts) ! k) x)"
        by blast
      with some show ?thesis by simp
    qed
  next
    case False
    then have step: "highest_membership_loop x (t # ts) (d0, r0)
        = highest_membership_loop x ts (d0, r0)"
      using t by simp
    show ?thesis
    proof (cases "\<exists>t' \<in> set ts. scalar_gt (degree_at t' x) d0")
      case later: True
      with Cons.IH [OF ts, of d0 r0] obtain i where i: "i < length ts"
        "highest_membership_loop x ts (d0, r0) = Inr (degree_at (ts ! i) x, Some (ts ! i))"
        "scalar_gt (degree_at (ts ! i) x) d0"
        "\<forall>t' \<in> set ts. \<not> scalar_gt (degree_at t' x) (degree_at (ts ! i) x)"
        "\<forall>j < i. degree_at (ts ! j) x \<noteq> degree_at (ts ! i) x"
        by auto
      have not_t: "\<not> scalar_gt ?y (degree_at (ts ! i) x)"
        using i(3) False scalar_lt_trans by (auto simp: scalar_gt_def)
      have neq: "?y \<noteq> degree_at (ts ! i) x"
        using i(3) False by auto
      have before: "\<forall>j < Suc i. degree_at ((t # ts) ! j) x \<noteq> degree_at (ts ! i) x"
        using i(5) neq by (auto simp: nth_Cons split: nat.splits)
      have "Suc i < length (t # ts)
         \<and> highest_membership_loop x (t # ts) (d0, r0)
              = Inr (degree_at ((t # ts) ! Suc i) x, Some ((t # ts) ! Suc i))
         \<and> scalar_gt (degree_at ((t # ts) ! Suc i) x) d0
         \<and> (\<forall>t' \<in> set (t # ts).
               \<not> scalar_gt (degree_at t' x) (degree_at ((t # ts) ! Suc i) x))
         \<and> (\<forall>j < Suc i. degree_at ((t # ts) ! j) x \<noteq> degree_at ((t # ts) ! Suc i) x)"
        using i step not_t before by simp
      then have "\<exists>k < length (t # ts).
           highest_membership_loop x (t # ts) (d0, r0)
              = Inr (degree_at ((t # ts) ! k) x, Some ((t # ts) ! k))
         \<and> scalar_gt (degree_at ((t # ts) ! k) x) d0
         \<and> (\<forall>t' \<in> set (t # ts). \<not> scalar_gt (degree_at t' x) (degree_at ((t # ts) ! k) x))
         \<and> (\<forall>j < k. degree_at ((t # ts) ! j) x \<noteq> degree_at ((t # ts) ! k) x)"
        by blast
      moreover have "\<exists>t' \<in> set (t # ts). scalar_gt (degree_at t' x) d0"
        using later by simp
      ultimately show ?thesis by simp
    next
      case none: False
      with Cons.IH [OF ts, of d0 r0]
      have "highest_membership_loop x ts (d0, r0) = Inr (d0, r0)" by simp
      with step False none show ?thesis by simp
    qed
  qed
qed

text \<open>
  C10. Every term's membership function returns or raises the evaluation error
  (ValueError) at \<open>x\<close>. If no term has a degree greater than 0 at \<open>x\<close>,
  \<^verbatim>\<open>highest_membership\<close> returns (0.0, None). Otherwise it returns the degree and
  the term at some position \<open>i\<close> of the list of terms such that the membership
  function of that term returned this degree, which is greater than 0 (so a term
  whose degree is NaN or whose evaluation raised is not selected), no term has a
  greater degree, and no earlier term has the same degree.
\<close>

theorem highest_membership_first_maximum:
  assumes "list_all (suppressible x) (terms v)"
  shows "(\<not> (\<exists>t \<in> set (terms v). scalar_gt (degree_at t x) (Fin 0))
          \<longrightarrow> highest_membership v x = Inr (Fin 0, None))
       \<and> ((\<exists>t \<in> set (terms v). scalar_gt (degree_at t x) (Fin 0))
          \<longrightarrow> (\<exists>i < length (terms v).
                highest_membership v x = Inr (degree_at (terms v ! i) x, Some (terms v ! i))
                \<and> membership (terms v ! i) x = Inr (degree_at (terms v ! i) x)
                \<and> scalar_gt (degree_at (terms v ! i) x) (Fin 0)
                \<and> (\<forall>t \<in> set (terms v).
                      \<not> scalar_gt (degree_at t x) (degree_at (terms v ! i) x))
                \<and> (\<forall>j < i. degree_at (terms v ! j) x \<noteq> degree_at (terms v ! i) x)))"
proof (intro conjI impI)
  assume "\<not> (\<exists>t \<in> set (terms v). scalar_gt (degree_at t x) (Fin 0))"
  then show "highest_membership v x = Inr (Fin 0, None)"
    using highest_membership_loop_result [OF assms, of "Fin 0" None]
    by (simp add: highest_membership_def)
next
  assume "\<exists>t \<in> set (terms v). scalar_gt (degree_at t x) (Fin 0)"
  then obtain i where i: "i < length (terms v)"
    "highest_membership_loop x (terms v) (Fin 0, None)
       = Inr (degree_at (terms v ! i) x, Some (terms v ! i))"
    "scalar_gt (degree_at (terms v ! i) x) (Fin 0)"
    "\<forall>t \<in> set (terms v). \<not> scalar_gt (degree_at t x) (degree_at (terms v ! i) x)"
    "\<forall>j < i. degree_at (terms v ! j) x \<noteq> degree_at (terms v ! i) x"
    using highest_membership_loop_result [OF assms, of "Fin 0" None] by auto
  from i(3) have "membership (terms v ! i) x = Inr (degree_at (terms v ! i) x)"
    by (rule degree_gt_returned)
  with i show "\<exists>i < length (terms v).
      highest_membership v x = Inr (degree_at (terms v ! i) x, Some (terms v ! i))
      \<and> membership (terms v ! i) x = Inr (degree_at (terms v ! i) x)
      \<and> scalar_gt (degree_at (terms v ! i) x) (Fin 0)
      \<and> (\<forall>t \<in> set (terms v). \<not> scalar_gt (degree_at t x) (degree_at (terms v ! i) x))
      \<and> (\<forall>j < i. degree_at (terms v ! j) x \<noteq> degree_at (terms v ! i) x)"
    unfolding highest_membership_def by blast
qed

text \<open>
  Two degrees of 0.75 are the greatest, the first of them is returned; with no
  degree above 0 the result is (0.0, None).
\<close>

theorem highest_membership_first_maximum_witness:
  "list_all (suppressible (Fin 0))
     (terms (obstacle False
        [constant_term ''left'' (Inr (Fin (1/4))), constant_term ''middle'' (Inl ValueError),
         constant_term ''right'' (Inr (Fin (3/4))), constant_term ''far'' (Inr (Fin (3/4))),
         constant_term ''nan'' (Inr NaN)]))
   \<and> highest_membership
       (obstacle False
          [constant_term ''left'' (Inr (Fin (1/4))), constant_term ''middle'' (Inl ValueError),
           constant_term ''right'' (Inr (Fin (3/4))), constant_term ''far'' (Inr (Fin (3/4))),
           constant_term ''nan'' (Inr NaN)])
       (Fin 0)
     = Inr (Fin (3/4), Some (constant_term ''right'' (Inr (Fin (3/4)))))
   \<and> list_all (suppressible (Fin 0))
       (terms (obstacle False
          [constant_term ''left'' (Inr (Fin (- (1/2)))), constant_term ''middle'' (Inl ValueError),
           constant_term ''right'' (Inr (Fin 0)), constant_term ''nan'' (Inr NaN)]))
   \<and> highest_membership
       (obstacle False
          [constant_term ''left'' (Inr (Fin (- (1/2)))), constant_term ''middle'' (Inl ValueError),
           constant_term ''right'' (Inr (Fin 0)), constant_term ''nan'' (Inr NaN)])
       (Fin 0)
     = Inr (Fin 0, None)"
  using highest_membership_first_maximum
    [of "Fin 0" "obstacle False
        [constant_term ''left'' (Inr (Fin (1/4))), constant_term ''middle'' (Inl ValueError),
         constant_term ''right'' (Inr (Fin (3/4))), constant_term ''far'' (Inr (Fin (3/4))),
         constant_term ''nan'' (Inr NaN)]"]
    highest_membership_first_maximum
    [of "Fin 0" "obstacle False
          [constant_term ''left'' (Inr (Fin (- (1/2)))), constant_term ''middle'' (Inl ValueError),
           constant_term ''right'' (Inr (Fin 0)), constant_term ''nan'' (Inr NaN)]"]
  by (simp add: highest_membership_def obstacle_def Variable_init_def
      Variable_value_setter_def constant_term_def membership_suppressed_def scalar_gt_def
      suppressible_def degree_at_def)

end
